theory Spec2Isabelle
  imports Complex_Main "HOL-Library.Word" "HOL-Library.Stream" "HOL-Library.Multiset"
begin

unbundle bit_operations_syntax

section \<open>IEEE 754 binary32 values, as NumPy's \<open>float32\<close> holds them\<close>

text \<open>
  A \<open>float32\<close> is its 32-bit pattern: one sign bit, eight exponent bits, 23 fraction
  bits. Every bit pattern is a value, so the type has no junk. An exponent field of 255
  is an infinity (fraction 0) or a NaN (fraction not 0); every other pattern is finite.
\<close>

type_synonym float32 = "32 word"

definition f32_sign :: "float32 \<Rightarrow> bool" where
  "f32_sign w = bit w 31"

definition f32_expo :: "float32 \<Rightarrow> nat" where
  "f32_expo w = unat (drop_bit 23 w AND 0xFF)"

definition f32_mant :: "float32 \<Rightarrow> nat" where
  "f32_mant w = unat (w AND 0x7FFFFF)"

text \<open>\<open>np.isnan\<close> and \<open>np.isinf\<close> on one scalar.\<close>

definition isnan :: "float32 \<Rightarrow> bool" where
  "isnan w = (f32_expo w = 255 \<and> f32_mant w \<noteq> 0)"

definition isinf :: "float32 \<Rightarrow> bool" where
  "isinf w = (f32_expo w = 255 \<and> f32_mant w = 0)"

definition isfinite :: "float32 \<Rightarrow> bool" where
  "isfinite w = (\<not> isnan w \<and> \<not> isinf w)"

text \<open>
  Every finite binary32 value is an integer multiple of \<open>2 ^ -149\<close>, the smallest
  subnormal. \<open>f32_scaled\<close> is that integer: the exact value times \<open>2 ^ 149\<close>.
\<close>

definition f32_scaled :: "float32 \<Rightarrow> int" where
  "f32_scaled w =
     (let m = (if f32_expo w = 0 then int (f32_mant w)
               else (2 ^ 23 + int (f32_mant w)) * 2 ^ (f32_expo w - 1))
      in if f32_sign w then - m else m)"

definition f32_pack :: "bool \<Rightarrow> nat \<Rightarrow> nat \<Rightarrow> float32" where
  "f32_pack s e m =
     (if s then 0x80000000 else 0) OR push_bit 23 (word_of_nat e) OR word_of_nat m"

definition f32_nan :: float32 where
  "f32_nan = 0x7FC00000"

fun bit_length :: "nat \<Rightarrow> nat" where
  "bit_length n = (if n = 0 then 0 else Suc (bit_length (n div 2)))"

declare bit_length.simps [simp del]

text \<open>
  Rounding an exact magnitude (in units of \<open>2 ^ -149\<close>) to the nearest binary32 value,
  ties to even, the rounding of the hardware addition that NumPy's float32 sum uses.
  A magnitude that rounds beyond the largest finite value becomes an infinity.
\<close>

definition f32_round :: "bool \<Rightarrow> nat \<Rightarrow> float32" where
  "f32_round s a =
     (if a < 2 ^ 24 then f32_pack s (a div 2 ^ 23) (a mod 2 ^ 23)
      else
        let e = bit_length a - 24;
            q = a div 2 ^ e;
            r = a mod 2 ^ e;
            half = 2 ^ (e - 1);
            q1 = (if r > half \<or> (r = half \<and> odd q) then q + 1 else q);
            e2 = (if q1 = 2 ^ 24 then e + 1 else e);
            q2 = (if q1 = 2 ^ 24 then 2 ^ 23 else q1)
        in if e2 + 1 \<ge> 255 then f32_pack s 255 0
           else f32_pack s (e2 + 1) (q2 - 2 ^ 23))"

text \<open>
  binary32 addition. A NaN operand gives a NaN; infinities of opposite sign give a NaN;
  an infinity absorbs a finite operand; two finite operands are added exactly and
  rounded, which can overflow to an infinity. The payload of a NaN is not tracked:
  \<open>isnan\<close> never reads it.
\<close>

definition f32_add :: "float32 \<Rightarrow> float32 \<Rightarrow> float32" where
  "f32_add a b =
     (if isnan a \<or> isnan b then f32_nan
      else if isinf a then (if isinf b \<and> f32_sign a \<noteq> f32_sign b then f32_nan else a)
      else if isinf b then b
      else
        let k = f32_scaled a + f32_scaled b
        in if k = 0 then f32_pack (f32_sign a \<and> f32_sign b) 0 0
           else f32_round (k < 0) (nat \<bar>k\<bar>))"

section \<open>Patches: NumPy structured arrays\<close>

text \<open>
  A decoded patch is a two-dimensional structured array: \<open>dtype_names\<close> are the field
  (band) names, in order, and every pixel holds one \<open>float32\<close> per field. \<open>pixels\<close>
  is rows of pixels of fields, the array's memory order.
\<close>

record patch =
  dtype_names :: "string list"
  pixels :: "float32 list list list"

text \<open>
  \<open>patch.view(np.float32)\<close>: the same memory read as plain \<open>float32\<close>; each row becomes
  the concatenation of its pixels' fields.
\<close>

definition view_float32 :: "patch \<Rightarrow> float32 list list" where
  "view_float32 p = map concat (pixels p)"

text \<open>
  \<open>np.sum\<close> of a two-dimensional \<open>float32\<close> array: the sum of all elements, accumulated
  in \<open>float32\<close>. The elements are added left to right in memory order. NumPy may group
  the additions in blocks; a NaN or an infinity is absorbing in every grouping, and the
  concrete sums evaluated below (exact small values, or positive values that overflow)
  are the same in every grouping.
\<close>

definition np_sum :: "float32 list list \<Rightarrow> float32" where
  "np_sum a = foldl f32_add 0 (concat a)"

definition filter_good_patches :: "patch \<Rightarrow> bool" where
  "filter_good_patches p =
     (let has_nan = isnan (np_sum (view_float32 p));
          has_inf = isinf (np_sum (view_float32 p))
      in if has_nan \<or> has_inf then False else True)"

section \<open>Errors\<close>

text \<open>
  The exceptions the pipeline's functions can raise: \<open>RetryError\<close> is what the retry
  decorator of \<open>get_patch\<close> raises once its deadline has passed, \<open>HTTPError\<close> what
  \<open>raise_for_status\<close> raises, \<open>EEException\<close> an Earth Engine failure, \<open>ValueError\<close>
  and \<open>IndexError\<close> Python's own.
\<close>

datatype error = RetryError | HTTPError | EEException | ValueError | IndexError

section \<open>Serialization: \<open>TFUtils.beam_serialize\<close>\<close>

text \<open>
  \<open>patch[name]\<close> on a structured array: the two-dimensional array of one field. NumPy
  raises \<open>ValueError\<close> for a name that is not a field.
\<close>

fun field_index :: "string \<Rightarrow> string list \<Rightarrow> nat option" where
  "field_index name [] = None"
| "field_index name (n # ns) =
     (if n = name then Some 0
      else (case field_index name ns of None \<Rightarrow> None | Some i \<Rightarrow> Some (Suc i)))"

definition getitem :: "patch \<Rightarrow> string \<Rightarrow> error + float32 list list" where
  "getitem p name =
     (case field_index name (dtype_names p) of
        None \<Rightarrow> Inl ValueError
      | Some i \<Rightarrow> Inr (map (map (\<lambda>px. px ! i)) (pixels p)))"

text \<open>\<open>ndarray.flatten()\<close>: the rows one after the other (C order).\<close>

definition flatten :: "'a list list \<Rightarrow> 'a list" where
  "flatten a = concat a"

text \<open>
  A \<open>tf.train.Example\<close> holds a dictionary from feature names to features; the features
  written here are float lists. \<open>SerializeToString\<close> is protobuf's encoding of that
  message; a serialized record is represented by the message it encodes.
\<close>

datatype feature = FloatList "float32 list"

datatype example = Example (feature_of: "string \<rightharpoonup> feature")

text \<open>
  The dictionary comprehension \<open>{name: Feature(...) for name in patch.dtype.names}\<close>:
  the names are visited in order, and a later entry replaces an earlier one of the same
  name.
\<close>

fun features_comprehension ::
  "patch \<Rightarrow> string list \<Rightarrow> (string \<rightharpoonup> feature) \<Rightarrow> error + (string \<rightharpoonup> feature)" where
  "features_comprehension p [] d = Inr d"
| "features_comprehension p (name # names) d =
     (case getitem p name of
        Inl e \<Rightarrow> Inl e
      | Inr a \<Rightarrow> features_comprehension p names (d(name \<mapsto> FloatList (flatten a))))"

definition beam_serialize :: "patch \<Rightarrow> error + example" where
  "beam_serialize p =
     (case features_comprehension p (dtype_names p) Map.empty of
        Inl e \<Rightarrow> Inl e
      | Inr features \<Rightarrow> Inr (Example features))"

section \<open>Partitioning: \<open>Utils.split_dataset\<close>\<close>

text \<open>
  The random source is explicit: the stream of the values that successive calls of
  \<open>random.random()\<close> return, each in \<open>[0, 1)\<close>. A call takes the head and leaves the tail.
  Ratios and weights are real numbers.
\<close>

type_synonym rng = "real stream"

text \<open>\<open>itertools.accumulate\<close>: the running sums.\<close>

fun accumulate_from :: "real \<Rightarrow> real list \<Rightarrow> real list" where
  "accumulate_from s [] = []"
| "accumulate_from s (w # ws) = (s + w) # accumulate_from (s + w) ws"

definition accumulate :: "real list \<Rightarrow> real list" where
  "accumulate ws = (case ws of [] \<Rightarrow> [] | w # ws' \<Rightarrow> w # accumulate_from w ws')"

text \<open>
  \<open>bisect.bisect_right(a, x, lo, hi)\<close>:
  \<^verbatim>\<open>while lo < hi: mid = (lo + hi) // 2; if x < a[mid]: hi = mid; else: lo = mid + 1\<close>
\<close>

function bisect_right :: "real list \<Rightarrow> real \<Rightarrow> nat \<Rightarrow> nat \<Rightarrow> nat" where
  "bisect_right a x lo hi =
     (if lo < hi then
        (let mid = (lo + hi) div 2
         in if x < a ! mid then bisect_right a x lo mid
            else bisect_right a x (mid + 1) hi)
      else lo)"
  by pat_completeness auto
termination
  by (relation "measure (\<lambda>(a, x, lo, hi). hi - lo)") auto

declare bisect_right.simps [simp del]

text \<open>
  \<open>random.choices(population, weights)\<close> with \<open>k = 1\<close>: the cumulative weights are
  built, their number must be the population's, their total must be positive, and the
  one element drawn is \<open>population[bisect(cum_weights, random() * total, 0, n - 1)]\<close>.
  The random source is only read once the checks have passed.
\<close>

definition choices :: "'a list \<Rightarrow> real list \<Rightarrow> rng \<Rightarrow> error + ('a list \<times> rng)" where
  "choices population weights g =
     (let n = length population;
          cum_weights = accumulate weights
      in if length cum_weights \<noteq> n then Inl ValueError
         else if cum_weights = [] then Inl IndexError
         else
           let total = last cum_weights
           in if total \<le> 0 then Inl ValueError
              else
                let hi = n - 1
                in Inr ([population ! bisect_right cum_weights (shd g * total) 0 hi], stl g))"

definition split_dataset :: "'a \<Rightarrow> int \<Rightarrow> real \<Rightarrow> real \<Rightarrow> rng \<Rightarrow> error + (int \<times> rng)" where
  "split_dataset element num_partitions validation_ratio test_ratio g =
     (let weights = [1 - validation_ratio - test_ratio, validation_ratio, test_ratio]
      in case choices [0, 1, 2] weights g of
           Inl e \<Rightarrow> Inl e
         | Inr (picked, g') \<Rightarrow>
             (case picked of [] \<Rightarrow> Inl IndexError | k # _ \<Rightarrow> Inr (k, g')))"

section \<open>Fetching: \<open>EEUtils.beam_yield_sample_points\<close> and \<open>EEUtils.beam_get_training_patches\<close>\<close>

text \<open>
  Coordinates are a longitude and a latitude. Earth Engine geometries are expressions
  built on the client: a point, a geometry buffered by a distance, the bounds of a
  geometry; the second argument of \<open>buffer\<close> and the argument of \<open>bounds\<close> is the
  \<open>maxError\<close>.
\<close>

type_synonym coords = "real \<times> real"

datatype geometry =
  Point coords
| Buffer geometry real real
| Bounds geometry real


text \<open>
  \<open>sample_locations.get(index)\<close> on the Earth Engine list of sample features, then the
  coordinates of the feature's point; an index outside the list is an Earth Engine
  error.
\<close>

definition beam_yield_sample_points :: "int \<Rightarrow> coords list \<Rightarrow> error + coords" where
  "beam_yield_sample_points index sample_locations =
     (if 0 \<le> index \<and> index < int (length sample_locations)
      then Inr (sample_locations ! nat index)
      else Inl EEException)"

text \<open>
  \<open>get_patch\<close> is the decorated inner function: one call of it is the whole retried
  download, whose outcome the remote service decides. It is a parameter here: a patch,
  or the exception that leaves the retry decorator.
\<close>

definition beam_get_training_patches ::
  "('img \<Rightarrow> geometry \<Rightarrow> string list \<Rightarrow> int \<Rightarrow> error + patch) \<Rightarrow>
   coords \<Rightarrow> 'img \<Rightarrow> string list \<Rightarrow> int \<Rightarrow> int \<Rightarrow> error + patch" where
  "beam_get_training_patches get_patch coords image' bands scale patch_size =
     (let point = Point coords;
          region = Bounds (Buffer point (real_of_int (scale * patch_size) / 2) 1) 1
      in get_patch image' region bands patch_size)"

section \<open>The patch pipeline: \<open>TrainingDataGenerator\<close>\<close>

text \<open>
  The attributes \<open>__init__\<close> sets that the patch pipeline reads. \<open>Config.SCALE\<close> is a
  parameter.
\<close>

record generator_init =
  kernel_size :: int
  grace :: int
  scale :: int
  test_ratio :: real
  validation_ratio :: real

definition TrainingDataGenerator_init :: "int \<Rightarrow> generator_init" where
  "TrainingDataGenerator_init config_scale =
     \<lparr>kernel_size = 128, grace = 10, scale = config_scale,
      test_ratio = 0.2, validation_ratio = 0.2\<rparr>"

text \<open>The attributes \<open>load_data\<close> adds.\<close>

record 'img training_data_generator = generator_init +
  sample_size :: int
  sample_locations_list :: "coords list"
  image' :: 'img
  selectors :: "string list"

text \<open>
  \<open>load_data\<close>, the part the patch pipeline reads: the size of the sample collection,
  the collection as a list of at most \<open>sample_size + grace\<close> elements
  (\<open>toList(count)\<close> returns the first \<open>count\<close> elements), the image and its band names.
  The sample collection, the image and the band names come from Earth Engine and are
  parameters.
\<close>

definition toList :: "'a list \<Rightarrow> int \<Rightarrow> 'a list" where
  "toList collection count' = take (nat count') collection"

definition load_data ::
  "generator_init \<Rightarrow> coords list \<Rightarrow> 'img \<Rightarrow> string list \<Rightarrow> 'img training_data_generator" where
  "load_data self sample_locations img band_names =
     (let n = int (length sample_locations)
      in \<lparr>kernel_size = kernel_size self, grace = grace self, scale = scale self,
          test_ratio = test_ratio self, validation_ratio = validation_ratio self,
          sample_size = n,
          sample_locations_list = toList sample_locations (n + grace self),
          image' = img, selectors = band_names\<rparr>)"

text \<open>Python's \<open>range(start, stop, 1)\<close>.\<close>

definition py_range :: "int \<Rightarrow> int \<Rightarrow> int list" where
  "py_range start stop = [start..stop - 1]"

text \<open>
  Beam's transforms, on a collection written as a list. \<open>Map\<close> applies the function to
  every element; an exception raised for one element is not caught by the transform
  and ends the run. \<open>Filter\<close> keeps the elements the predicate accepts.
  \<open>Partition(fn, n)\<close> puts each element into the output whose index \<open>fn\<close> returns and
  raises \<open>ValueError\<close> for an index outside \<open>[0, n)\<close>.
\<close>

fun beam_Map :: "('a \<Rightarrow> error + 'b) \<Rightarrow> 'a list \<Rightarrow> error + 'b list" where
  "beam_Map f [] = Inr []"
| "beam_Map f (x # xs) =
     (case f x of
        Inl e \<Rightarrow> Inl e
      | Inr y \<Rightarrow> (case beam_Map f xs of Inl e \<Rightarrow> Inl e | Inr ys \<Rightarrow> Inr (y # ys)))"

definition beam_Filter :: "('a \<Rightarrow> bool) \<Rightarrow> 'a list \<Rightarrow> 'a list" where
  "beam_Filter f xs = filter f xs"

fun beam_Partition ::
  "('a \<Rightarrow> int \<Rightarrow> rng \<Rightarrow> error + (int \<times> rng)) \<Rightarrow> int \<Rightarrow> 'a list \<Rightarrow> rng \<Rightarrow>
   error + ('a list list \<times> rng)" where
  "beam_Partition fn n [] g = Inr (replicate (nat n) [], g)"
| "beam_Partition fn n (x # xs) g =
     (case fn x n g of
        Inl e \<Rightarrow> Inl e
      | Inr (k, g') \<Rightarrow>
          if \<not> (0 \<le> k \<and> k < n) then Inl ValueError
          else (case beam_Partition fn n xs g' of
                  Inl e \<Rightarrow> Inl e
                | Inr (outs, g'') \<Rightarrow> Inr (outs[nat k := x # outs ! nat k], g'')))"

text \<open>The first stage, \<open>beam.Create(range(0, self.sample_size, 1))\<close>.\<close>

definition create_range :: "'img training_data_generator \<Rightarrow> int list" where
  "create_range self = py_range 0 (sample_size self)"

text \<open>
  \<open>generate_training_patch_data\<close> up to the three collections handed to the writers:
  training, validation and test records.
\<close>

definition generate_training_patch_data ::
  "'img training_data_generator \<Rightarrow>
   ('img \<Rightarrow> geometry \<Rightarrow> string list \<Rightarrow> int \<Rightarrow> error + patch) \<Rightarrow> rng \<Rightarrow>
   error + (example list \<times> example list \<times> example list)" where
  "generate_training_patch_data self get_patch g =
     (case beam_Map (\<lambda>index. beam_yield_sample_points index (sample_locations_list self))
             (create_range self) of
        Inl e \<Rightarrow> Inl e
      | Inr points \<Rightarrow>
     (case beam_Map (\<lambda>coords. beam_get_training_patches get_patch coords (image' self)
                       (selectors self) (scale self) (kernel_size self)) points of
        Inl e \<Rightarrow> Inl e
      | Inr patches \<Rightarrow>
     (case beam_Map beam_serialize (beam_Filter filter_good_patches patches) of
        Inl e \<Rightarrow> Inl e
      | Inr records \<Rightarrow>
     (case beam_Partition
             (\<lambda>element n. split_dataset element n (validation_ratio self) (test_ratio self))
             3 records g of
        Inl e \<Rightarrow> Inl e
      | Inr (outs, g') \<Rightarrow>
          (case outs of
             [training_data, validation_data, test_data] \<Rightarrow>
               Inr (training_data, validation_data, test_data)
           | _ \<Rightarrow> Inl ValueError)))))"

section \<open>Stub inputs for the end-to-end scenarios\<close>

text \<open>
  A 4 x 4 patch of the two bands \<open>B_before\<close> and \<open>G_before\<close>, each constant, and a stub
  for \<open>get_patch\<close> that answers by the centre of the requested region.
\<close>

definition stub_patch :: "float32 \<Rightarrow> float32 \<Rightarrow> patch" where
  "stub_patch a b =
     \<lparr>dtype_names = [''B_before'', ''G_before''], pixels = replicate 4 (replicate 4 [a, b])\<rparr>"

definition stub_get_patch ::
  "(coords \<Rightarrow> error + patch) \<Rightarrow> unit \<Rightarrow> geometry \<Rightarrow> string list \<Rightarrow> int \<Rightarrow> error + patch" where
  "stub_get_patch answer img region bands patch_size =
     (case region of
        Bounds (Buffer (Point c) d e1) e2 \<Rightarrow> answer c
      | _ \<Rightarrow> Inl EEException)"

section \<open>The validator\<close>

lemmas f32_defs = f32_add_def isnan_def isinf_def isfinite_def f32_expo_def f32_mant_def
  f32_scaled_def f32_sign_def f32_round_def f32_pack_def f32_nan_def bit_length.simps Let_def

text \<open>Sanity checks of the addition: \<open>1 + 2 = 3\<close>, a tie rounded to even, \<open>pi + e\<close>.\<close>

lemma f32_add_examples:
  "f32_add 0x3F800000 0x40000000 = 0x40400000"
  "f32_add 0x3F800001 0x33800000 = 0x3F800002"
  "f32_add 0x40490FDB 0x402DF854 = 0x40BB8418"
  by (simp_all add: f32_defs)

lemma isnan_nan: "isnan f32_nan"
  by (simp add: f32_defs)

text \<open>A sum is finite only if both operands are: NaN and the infinities are absorbing.\<close>

lemma f32_add_finite: "isfinite (f32_add a b) \<Longrightarrow> isfinite a \<and> isfinite b"
  unfolding f32_add_def
  by (auto simp: isnan_nan isfinite_def split: if_splits)

lemma foldl_f32_add_finite:
  "isfinite (foldl f32_add acc xs) \<Longrightarrow> isfinite acc \<and> list_all isfinite xs"
proof (induction xs arbitrary: acc)
  case Nil
  then show ?case by simp
next
  case (Cons x xs)
  from Cons.IH [of "f32_add acc x"] Cons.prems
  have "isfinite (f32_add acc x)" "list_all isfinite xs" by simp_all
  with f32_add_finite [of acc x] show ?case by simp
qed

lemma filter_good_patches_isfinite:
  "filter_good_patches p \<longleftrightarrow> isfinite (np_sum (view_float32 p))"
  by (auto simp: filter_good_patches_def isfinite_def Let_def)

lemma filter_good_patches_sound:
  "filter_good_patches p \<Longrightarrow> list_all isfinite (concat (view_float32 p))"
  using foldl_f32_add_finite [of 0 "concat (view_float32 p)"]
  by (simp add: filter_good_patches_isfinite np_sum_def)

text \<open>
  The largest finite binary32 value is \<open>0x7F7FFFFF\<close>; \<open>0x7F800000\<close> is plus infinity.
  Adding the largest value to itself overflows.
\<close>

lemma add_0_max: "f32_add 0 0x7F7FFFFF = 0x7F7FFFFF"
  by (simp add: f32_defs)

lemma add_max_max: "f32_add 0x7F7FFFFF 0x7F7FFFFF = 0x7F800000"
  by (simp add: f32_defs)

lemma add_inf_max: "f32_add 0x7F800000 0x7F7FFFFF = 0x7F800000"
  by (simp add: f32_defs)

lemma isfinite_max: "isfinite 0x7F7FFFFF"
  by (simp add: f32_defs)

lemma not_isfinite_inf: "\<not> isfinite 0x7F800000"
  by (simp add: f32_defs)

lemma replicate_3: "replicate 3 x = [x, x, x]"
  by (simp add: numeral_eq_Suc)

lemma replicate_4: "replicate 4 x = [x, x, x, x]"
  by (simp add: numeral_eq_Suc)

text \<open>
  Every patch that holds a NaN or an infinite value anywhere is rejected: a patch that
  \<open>filter_good_patches\<close> accepts has only finite values.
\<close>

theorem filter_good_patches_rejects_nan_inf:
  "x \<in> set (concat (view_float32 p)) \<Longrightarrow> isnan x \<or> isinf x \<Longrightarrow> \<not> filter_good_patches p"
  using filter_good_patches_sound [of p]
  by (auto simp: list_all_iff isfinite_def)

theorem filter_good_patches_rejects_nan_inf_witness:
  "0x7FC00000 \<in> set (concat (view_float32 \<lparr>dtype_names = [''B_before''],
                                           pixels = [[[0x3F800000], [0x7FC00000]]]\<rparr>)) \<and>
   isnan 0x7FC00000 \<and>
   \<not> filter_good_patches \<lparr>dtype_names = [''B_before''],
                           pixels = [[[0x3F800000], [0x7FC00000]]]\<rparr>"
proof -
  have 1: "0x7FC00000 \<in> set (concat (view_float32 \<lparr>dtype_names = [''B_before''],
                                           pixels = [[[0x3F800000], [0x7FC00000]]]\<rparr>))"
    by (simp add: view_float32_def)
  have 2: "isnan 0x7FC00000" by (simp add: f32_defs)
  from filter_good_patches_rejects_nan_inf [OF 1] 1 2 show ?thesis by blast
qed

text \<open>
  C1. The validator accepts a patch iff its values hold no NaN and no infinite value.
  The code tests the \<open>float32\<close> sum of the values instead, and the sum of finite values
  can overflow: the patch of one pixel whose two bands both hold the largest finite
  value has only finite values and is rejected.
\<close>

theorem filter_good_patches_rejects_finite_patch:
  "list_all isfinite (concat (view_float32
       \<lparr>dtype_names = [''B_before'', ''G_before''], pixels = [[[0x7F7FFFFF, 0x7F7FFFFF]]]\<rparr>)) \<and>
   \<not> filter_good_patches
       \<lparr>dtype_names = [''B_before'', ''G_before''], pixels = [[[0x7F7FFFFF, 0x7F7FFFFF]]]\<rparr>"
  by (simp add: filter_good_patches_isfinite np_sum_def view_float32_def add_0_max add_max_max
        isfinite_max not_isfinite_inf)

lemma stub_patch_max_rejected: "\<not> filter_good_patches (stub_patch 0x7F7FFFFF 0x7F7FFFFF)"
  by (simp add: filter_good_patches_isfinite np_sum_def view_float32_def stub_patch_def
        replicate_4 add_0_max add_max_max add_inf_max not_isfinite_inf)

lemma stub_patch_max_finite:
  "list_all isfinite (concat (view_float32 (stub_patch 0x7F7FFFFF 0x7F7FFFFF)))"
  by (simp add: view_float32_def stub_patch_def replicate_4 isfinite_max)

lemma stub_patch_nan_rejected: "\<not> filter_good_patches (stub_patch 0x7FC00000 0x3F800000)"
proof
  assume "filter_good_patches (stub_patch 0x7FC00000 0x3F800000)"
  from filter_good_patches_sound [OF this] have "isfinite 0x7FC00000"
    by (simp add: view_float32_def stub_patch_def replicate_4)
  then show False by (simp add: f32_defs)
qed

section \<open>The serializer\<close>







section \<open>The partitioner\<close>

lemma accumulate3: "accumulate [a, b, c] = [a, a + b, a + b + c]"
  by (simp add: accumulate_def)

lemma bisect_right_done: "hi \<le> lo \<Longrightarrow> bisect_right a x lo hi = lo"
  by (subst bisect_right.simps) simp

lemma bisect_right3:
  "bisect_right [c0, c1, c2] x 0 (Suc (Suc 0)) = (if x < c1 then (if x < c0 then 0 else 1) else 2)"
proof -
  have a: "bisect_right [c0, c1, c2] x 0 (Suc 0) = (if x < c0 then 0 else 1)"
    by (subst bisect_right.simps) (simp add: bisect_right_done)
  show ?thesis
    by (subst bisect_right.simps) (simp add: a bisect_right_done)
qed

text \<open>
  What \<open>split_dataset\<close> computes: the three weights sum to 1, so the total is positive
  and no check of \<open>random.choices\<close> fails; the draw \<open>u\<close> is compared with the cumulative
  weights \<open>1 - v - t\<close> and \<open>1 - t\<close>.
\<close>

lemma split_dataset_eq:
  "split_dataset element num_partitions v t g =
     Inr (if shd g < 1 - t then (if shd g < 1 - v - t then 0 else 1) else 2, stl g)"
proof -
  have tot: "1 - v - t + v + t = 1" "1 - v - t + v = 1 - t" by simp_all
  show ?thesis
    by (simp add: split_dataset_def choices_def accumulate3 bisect_right3 tot Let_def)
qed







section \<open>The raster region\<close>



section \<open>The patch pipeline\<close>

lemma py_range_0: "py_range 0 (int n) = map int [0..<n]"
proof (induction n)
  case 0
  show ?case by (simp add: py_range_def)
next
  case (Suc n)
  have "[0..int n] = [0..int n - 1] @ [int n]"
    by (rule upto_rec2) simp
  with Suc show ?case by (simp add: py_range_def)
qed

lemma py_range_0_10: "py_range 0 10 = [0, 1, 2, 3, 4, 5, 6, 7, 8, 9]"
  by (simp add: py_range_def upto.simps)

lemma py_range_0_2: "py_range 0 2 = [0, 1]"
  by (simp add: py_range_def upto.simps)

text \<open>
  C4 (amended). The Enumerate stage produces exactly one task per index of
  \<open>[0, sampleCount)\<close>: for a sample collection of size \<open>N\<close>, the indices \<open>0\<close> to
  \<open>N - 1\<close>, whatever the grace. The grace only enlarges the count passed to \<open>toList\<close>
  when the collection is listed; with a grace that is not negative the list is the
  whole collection.
\<close>

theorem create_range_is_sample_size:
  "create_range (load_data self sample_locations img band_names)
     = map int [0..<length sample_locations] \<and>
   sample_locations_list (load_data self sample_locations img band_names)
     = toList sample_locations (int (length sample_locations) + grace self) \<and>
   (0 \<le> grace self \<longrightarrow>
      sample_locations_list (load_data self sample_locations img band_names) = sample_locations)"
  by (simp add: create_range_def load_data_def py_range_0 toList_def Let_def)

theorem create_range_is_sample_size_witness:
  "0 \<le> grace (TrainingDataGenerator_init 5) \<and>
   create_range (load_data (TrainingDataGenerator_init 5) [(0, 0), (1, 1)] () []) = [0, 1] \<and>
   sample_locations_list (load_data (TrainingDataGenerator_init 5) [(0, 0), (1, 1)] () [])
     = [(0, 0), (1, 1)]"
  using create_range_is_sample_size [of "TrainingDataGenerator_init 5" "[(0, 0), (1, 1)]" "()" "[]"]
  by (simp add: TrainingDataGenerator_init_def toList_def)

text \<open>
  With two samples and the grace of 10 that \<open>__init__\<close> sets, the tasks are not the
  indices of \<open>[0, sampleCount + grace)\<close>.
\<close>

theorem create_range_grace_counterexample:
  "create_range (load_data (TrainingDataGenerator_init 5) [(0, 0), (1, 1)] () []) = [0, 1] \<and>
   sample_size (load_data (TrainingDataGenerator_init 5) [(0, 0), (1, 1)] () [])
     + grace (load_data (TrainingDataGenerator_init 5) [(0, 0), (1, 1)] () []) = 12 \<and>
   create_range (load_data (TrainingDataGenerator_init 5) [(0, 0), (1, 1)] () [])
     \<noteq> py_range 0 (sample_size (load_data (TrainingDataGenerator_init 5) [(0, 0), (1, 1)] () [])
                     + grace (load_data (TrainingDataGenerator_init 5) [(0, 0), (1, 1)] () []))"
proof -
  let ?G = "load_data (TrainingDataGenerator_init 5) [(0, 0), (1, 1)] () []"
  have tasks: "create_range ?G = [0, 1]"
    by (simp add: create_range_def load_data_def py_range_0_2)
  have bound: "sample_size ?G + grace ?G = 12"
    by (simp add: load_data_def TrainingDataGenerator_init_def)
  have len: "length (py_range 0 12) = 12"
    by (simp add: py_range_def)
  have "create_range ?G \<noteq> py_range 0 (sample_size ?G + grace ?G)"
  proof
    assume "create_range ?G = py_range 0 (sample_size ?G + grace ?G)"
    then have "length (create_range ?G) = length (py_range 0 12)"
      by (simp only: bound)
    with tasks len show False by simp
  qed
  with tasks bound show ?thesis by blast
qed









text \<open>
  A patch of ordinary values (1.0 and 0.5) is accepted and serialized; a run of two
  such samples returns two records.
\<close>

lemma stub_patch_ok_accepted: "filter_good_patches (stub_patch 0x3F800000 0x3F000000)"
  by (simp add: filter_good_patches_isfinite np_sum_def view_float32_def stub_patch_def
        replicate_4 f32_defs)

lemma stub_patch_serialized: "\<exists>r. beam_serialize (stub_patch a b) = Inr r"
  by (simp add: beam_serialize_def getitem_def stub_patch_def)




text \<open>
  Ten samples, the patch of the fourth with a NaN, the other nine with the values 1.0
  and 0.5, the random source cycling through 0.1, 0.7 and 0.9: the run returns nine
  records, three in each output, each the serialization of the all-finite patch.
\<close>

theorem end_to_end_nine_records:
  "\<exists>r. beam_serialize (stub_patch 0x3F800000 0x3F000000) = Inr r \<and>
     generate_training_patch_data
       (load_data (TrainingDataGenerator_init 5)
          [(0, 0), (1, 0), (2, 0), (3, 0), (4, 0), (5, 0), (6, 0), (7, 0), (8, 0), (9, 0)]
          () [''B_before'', ''G_before''])
       (stub_get_patch (\<lambda>c. if c = (3, 0) then Inr (stub_patch 0x7FC00000 0x3F800000)
                             else Inr (stub_patch 0x3F800000 0x3F000000)))
       (cycle [1 / 10, 7 / 10, 9 / 10])
     = Inr ([r, r, r], [r, r, r], [r, r, r])"
proof -
  obtain r where r: "beam_serialize (stub_patch 0x3F800000 0x3F000000) = Inr r"
    using stub_patch_serialized by blast
  have "generate_training_patch_data
       (load_data (TrainingDataGenerator_init 5)
          [(0, 0), (1, 0), (2, 0), (3, 0), (4, 0), (5, 0), (6, 0), (7, 0), (8, 0), (9, 0)]
          () [''B_before'', ''G_before''])
       (stub_get_patch (\<lambda>c. if c = (3, 0) then Inr (stub_patch 0x7FC00000 0x3F800000)
                             else Inr (stub_patch 0x3F800000 0x3F000000)))
       (cycle [1 / 10, 7 / 10, 9 / 10])
     = Inr ([r, r, r], [r, r, r], [r, r, r])"
    by (simp add: generate_training_patch_data_def create_range_def load_data_def
        TrainingDataGenerator_init_def py_range_0_10 beam_yield_sample_points_def toList_def
        beam_get_training_patches_def stub_get_patch_def beam_Filter_def
        stub_patch_ok_accepted stub_patch_nan_rejected r split_dataset_eq replicate_3)
  with r show ?thesis by blast
qed

text \<open>
  C8. Ten samples, one patch with a NaN, the other nine all-finite: the pipeline is to
  produce exactly nine records. When the nine finite patches hold the largest finite
  value in both bands, the validator rejects them too, and the three outputs are empty.
\<close>

theorem end_to_end_drops_finite_patches:
  "generate_training_patch_data
     (load_data (TrainingDataGenerator_init 5)
        [(0, 0), (1, 0), (2, 0), (3, 0), (4, 0), (5, 0), (6, 0), (7, 0), (8, 0), (9, 0)]
        () [''B_before'', ''G_before''])
     (stub_get_patch (\<lambda>c. if c = (3, 0) then Inr (stub_patch 0x7FC00000 0x3F800000)
                           else Inr (stub_patch 0x7F7FFFFF 0x7F7FFFFF)))
     (sconst (1 / 2))
   = Inr ([], [], []) \<and>
   isnan 0x7FC00000 \<and>
   list_all isfinite (concat (view_float32 (stub_patch 0x7F7FFFFF 0x7F7FFFFF)))"
proof -
  have "generate_training_patch_data
     (load_data (TrainingDataGenerator_init 5)
        [(0, 0), (1, 0), (2, 0), (3, 0), (4, 0), (5, 0), (6, 0), (7, 0), (8, 0), (9, 0)]
        () [''B_before'', ''G_before''])
     (stub_get_patch (\<lambda>c. if c = (3, 0) then Inr (stub_patch 0x7FC00000 0x3F800000)
                           else Inr (stub_patch 0x7F7FFFFF 0x7F7FFFFF)))
     (sconst (1 / 2))
   = Inr ([], [], [])"
    by (simp add: generate_training_patch_data_def create_range_def load_data_def
          TrainingDataGenerator_init_def py_range_0_10 beam_yield_sample_points_def toList_def
          beam_get_training_patches_def stub_get_patch_def beam_Filter_def
          stub_patch_max_rejected stub_patch_nan_rejected replicate_3 Let_def)
  moreover have "isnan 0x7FC00000" by (simp add: f32_defs)
  ultimately show ?thesis using stub_patch_max_finite by simp
qed

end
